theory Spec2Isabelle
  imports Main "HOL-Library.Word"
begin

section \<open>The contract editor: the compile/deploy orchestration of NEARContractEditor.tsx\<close>

text \<open>
  The component keeps its whole session in React state variables and changes them from
  event handlers, some of which are \<^verbatim>\<open>async\<close>. The embedding is by explicit state
  passing: the state variables are the fields of one record, a handler is a function from
  the state it was invoked in to the state it leaves, together with the list of effects
  it has on the outside (alerts, requests, wallet calls). An \<^verbatim>\<open>async\<close> handler is cut at
  its \<^verbatim>\<open>await\<close>s: the part that runs at the invocation, and one function per
  continuation, which takes the settled promise and the state current at that moment.
\<close>

subsection \<open>Strings\<close>

text \<open>
  A JavaScript string is a sequence of UTF-16 code units. \<open>ustr\<close> writes an ASCII
  literal of the source as such a sequence.
\<close>

type_synonym jsstring = "16 word list"

definition ustr :: "string \<Rightarrow> jsstring" where
  "ustr s = map of_char s"

text \<open>
  The code units that \<^verbatim>\<open>String.prototype.trim\<close> strips and that \<^verbatim>\<open>\s\<close> matches in a
  regular expression: ECMAScript's WhiteSpace (TAB, VT, FF, SP, NBSP, ZWNBSP and the
  category Zs) and LineTerminator (LF, CR, LS, PS).
\<close>

definition is_whitespace :: "16 word \<Rightarrow> bool" where
  "is_whitespace c \<longleftrightarrow>
     c = 0x0009 \<or> c = 0x000A \<or> c = 0x000B \<or> c = 0x000C \<or> c = 0x000D \<or> c = 0x0020 \<or>
     c = 0x00A0 \<or> c = 0x1680 \<or> (0x2000 \<le> c \<and> c \<le> 0x200A) \<or> c = 0x2028 \<or>
     c = 0x2029 \<or> c = 0x202F \<or> c = 0x205F \<or> c = 0x3000 \<or> c = 0xFEFF"

definition trim :: "jsstring \<Rightarrow> jsstring" where
  "trim s = rev (dropWhile is_whitespace (rev (dropWhile is_whitespace s)))"

text \<open>
  \<^verbatim>\<open>s.replace(/\s+/g, '_')\<close>: scanning from the left, every maximal run of whitespace
  (the quantifier is greedy) becomes one underscore, every other code unit is kept.
\<close>

function replace_whitespace_runs :: "jsstring \<Rightarrow> jsstring" where
  "replace_whitespace_runs [] = []"
| "replace_whitespace_runs (c # cs) =
     (if is_whitespace c then 0x005F # replace_whitespace_runs (dropWhile is_whitespace cs)
      else c # replace_whitespace_runs cs)"
  by pat_completeness auto
termination
  by (relation "measure length") (auto simp: less_Suc_eq_le length_dropWhile_le)

text \<open>
  \<^verbatim>\<open>Date.now()\<close> is an integral Number of milliseconds; a template literal renders
  it with Number::toString, which for an integer of magnitude below \<open>10^21\<close> (every time
  value is) is its decimal numeral, with a minus sign when negative.
\<close>

definition digit_unit :: "nat \<Rightarrow> 16 word" where
  "digit_unit d = 0x0030 + of_nat d"

fun nat_digits :: "nat \<Rightarrow> jsstring" where
  "nat_digits n =
     (if n < 10 then [digit_unit n] else nat_digits (n div 10) @ [digit_unit (n mod 10)])"

declare nat_digits.simps [simp del]

definition number_toString :: "int \<Rightarrow> jsstring" where
  "number_toString n =
     (if n < 0 then 0x002D # nat_digits (nat (- n)) else nat_digits (nat n))"

subsection \<open>Promises and thrown values\<close>

text \<open>
  What the build service and the wallet library reject a promise with, and what the
  runtime throws, is an Error object: a name and a message, both strings.
  \<open>error_toString\<close> is \<^verbatim>\<open>Error.prototype.toString\<close>, which a template literal
  applies to it.
\<close>

datatype js_error = Error (error_name: jsstring) (message: jsstring)

definition error_toString :: "js_error \<Rightarrow> jsstring" where
  "error_toString e =
     (if error_name e = [] then message e
      else if message e = [] then error_name e
      else error_name e @ ustr '': '' @ message e)"

datatype 'a settled = Resolved 'a | Rejected js_error

subsection \<open>The data of the component\<close>

text \<open>
  The interfaces of the source, field by field. Field names are global here, and
  \<open>output\<close> is a keyword, so \<^verbatim>\<open>CompileResponse.output\<close> is \<open>compile_output\<close>,
  \<^verbatim>\<open>DeployResponse.success\<close> is \<open>deploy_success\<close>, and the fields of
  \<^verbatim>\<open>ContractTemplate\<close> carry the prefix \<open>tpl_\<close>. An optional field is an \<open>option\<close>.
\<close>

record CompileResponse =
  success :: bool
  compile_output :: jsstring
  errors :: "jsstring option"
  wasm_size :: "nat option"

record ContractTemplate =
  tpl_name :: jsstring
  tpl_description :: jsstring
  tpl_code :: jsstring

record WalletConnection =
  accountId :: jsstring
  isSignedIn :: bool

record DeployResponse =
  deploy_success :: bool
  transactionHash :: "jsstring option"
  contractId :: "jsstring option"
  error :: "jsstring option"

text \<open>
  \<open>nearConnection\<close> is \<^verbatim>\<open>null\<close> or the object \<^verbatim>\<open>{ near, wallet }\<close> that
  \<^verbatim>\<open>initializeNear\<close> stores; the handlers only test it and call through it.
\<close>

datatype near_connection = NearConnection

record session =
  code :: jsstring
  contractName :: jsstring
  compiling :: bool
  deploying :: bool
  compileResult :: "CompileResponse option"
  deployResult :: "DeployResponse option"
  templates :: "ContractTemplate list"
  selectedTemplate :: jsstring
  loading :: bool
  wallet :: WalletConnection
  nearConnection :: "near_connection option"

text \<open>The \<^verbatim>\<open>useState\<close> initial values.\<close>

definition signed_out :: WalletConnection where
  "signed_out = \<lparr>accountId = [], isSignedIn = False\<rparr>"

definition initial_session :: session where
  "initial_session =
     \<lparr>code = [], contractName = ustr ''hello_near'', compiling = False, deploying = False,
      compileResult = None, deployResult = None, templates = [], selectedTemplate = [],
      loading = True, wallet = signed_out, nearConnection = None\<rparr>"

text \<open>What a handler does to the outside of the component.\<close>

datatype event =
    Alert jsstring
  | ConsoleError
  | GetTemplates
  | PostCompile jsstring jsstring
  | GetWasm jsstring
  | WalletDeployContract "8 word list"
  | WalletRequestSignIn
  | WalletSignOut
  | WindowOpenWasm jsstring

fun is_network_call :: "event \<Rightarrow> bool" where
  "is_network_call GetTemplates = True"
| "is_network_call (PostCompile c n) = True"
| "is_network_call (GetWasm n) = True"
| "is_network_call (WalletDeployContract w) = True"
| "is_network_call (WindowOpenWasm n) = True"
| "is_network_call (Alert m) = False"
| "is_network_call ConsoleError = False"
| "is_network_call WalletRequestSignIn = False"
| "is_network_call WalletSignOut = False"

subsection \<open>The wallet handlers\<close>

text \<open>
  \<^verbatim>\<open>initializeNear\<close> runs once, from the mount effect. Its \<^verbatim>\<open>try\<close> block resolves
  with the account that the wallet has signed in (if any) or throws.
\<close>

definition initializeNear_settled :: "jsstring option settled \<Rightarrow> session \<Rightarrow> session \<times> event list" where
  "initializeNear_settled r s =
     (case r of
        Resolved None \<Rightarrow> (s\<lparr>nearConnection := Some NearConnection\<rparr>, [])
      | Resolved (Some a) \<Rightarrow>
          (s\<lparr>nearConnection := Some NearConnection,
             wallet := \<lparr>accountId = a, isSignedIn = True\<rparr>\<rparr>, [])
      | Rejected e \<Rightarrow> (s, [ConsoleError]))"

definition connectWallet :: "session \<Rightarrow> session \<times> event list" where
  "connectWallet s =
     (case nearConnection s of
        Some c \<Rightarrow> (s, [WalletRequestSignIn])
      | None \<Rightarrow> (s, []))"

definition disconnectWallet :: "session \<Rightarrow> session \<times> event list" where
  "disconnectWallet s =
     (case nearConnection s of
        Some c \<Rightarrow> (s\<lparr>wallet := signed_out, deployResult := None\<rparr>, [WalletSignOut])
      | None \<Rightarrow> (s, []))"

subsection \<open>The template handlers\<close>

definition fetchTemplates_settled ::
  "ContractTemplate list settled \<Rightarrow> session \<Rightarrow> session \<times> event list" where
  "fetchTemplates_settled r s =
     (case r of
        Resolved ts \<Rightarrow> (s\<lparr>templates := ts, loading := False\<rparr>, [])
      | Rejected e \<Rightarrow> (s\<lparr>loading := False\<rparr>, [ConsoleError]))"

text \<open>
  \<^verbatim>\<open>String.prototype.toLowerCase\<close> is the runtime's (the Unicode default case
  conversion); the handler takes it as its first argument.
\<close>

definition loadTemplate :: "(jsstring \<Rightarrow> jsstring) \<Rightarrow> jsstring \<Rightarrow> session \<Rightarrow> session" where
  "loadTemplate toLowerCase templateName s =
     (case find (\<lambda>t. tpl_name t = templateName) (templates s) of
        Some template \<Rightarrow>
          s\<lparr>code := tpl_code template,
            contractName := replace_whitespace_runs (toLowerCase templateName),
            compileResult := None,
            deployResult := None,
            selectedTemplate := templateName\<rparr>
      | None \<Rightarrow> s\<lparr>selectedTemplate := templateName\<rparr>)"

subsection \<open>The compile handler\<close>

text \<open>
  \<open>compileContract\<close> is the handler up to its \<^verbatim>\<open>await\<close>: the validation, the three
  state updates and the call of \<^verbatim>\<open>axios.post\<close>. \<open>compileContract_settled\<close> is the
  rest, run when the request has settled, on the state of that moment.
\<close>

definition compileContract :: "session \<Rightarrow> session \<times> event list" where
  "compileContract s =
     (if trim (code s) = [] \<or> trim (contractName s) = []
      then (s, [Alert (ustr ''Please provide both contract name and code'')])
      else (s\<lparr>compiling := True, compileResult := None, deployResult := None\<rparr>,
            [PostCompile (code s) (contractName s)]))"

definition compileContract_settled :: "CompileResponse settled \<Rightarrow> session \<Rightarrow> session" where
  "compileContract_settled r s =
     (case r of
        Resolved d \<Rightarrow> s\<lparr>compileResult := Some d, compiling := False\<rparr>
      | Rejected e \<Rightarrow>
          s\<lparr>compileResult :=
              Some \<lparr>success = False, compile_output = [],
                    errors = Some (ustr ''Network error: '' @ error_toString e),
                    wasm_size = None\<rparr>,
            compiling := False\<rparr>)"

subsection \<open>The deploy handler\<close>

text \<open>
  \<^verbatim>\<open>compileResult?.success\<close> is falsy when there is no result.
\<close>

definition compiled_ok :: "session \<Rightarrow> bool" where
  "compiled_ok s = (case compileResult s of None \<Rightarrow> False | Some r \<Rightarrow> success r)"

definition deployContract :: "session \<Rightarrow> session \<times> event list" where
  "deployContract s =
     (if \<not> compiled_ok s
      then (s, [Alert (ustr ''Please compile the contract successfully first'')])
      else if \<not> isSignedIn (wallet s)
      then (s, [Alert (ustr ''Please connect your wallet first'')])
      else (s\<lparr>deploying := True, deployResult := None\<rparr>, [GetWasm (contractName s)]))"

text \<open>
  The \<^verbatim>\<open>catch\<close> block: \<^verbatim>\<open>error.message || 'Deployment failed'\<close> falls back when the
  message is the empty string.
\<close>

definition deploy_failure :: "js_error \<Rightarrow> DeployResponse" where
  "deploy_failure e =
     \<lparr>deploy_success = False, transactionHash = None, contractId = None,
      error = Some (if message e = [] then ustr ''Deployment failed'' else message e)\<rparr>"

text \<open>
  The identifier the handler composes:
  \<^verbatim>\<open>`${contractName}_${timestamp}.${wallet.accountId}`\<close>.
\<close>

definition deploy_contract_id :: "jsstring \<Rightarrow> int \<Rightarrow> jsstring \<Rightarrow> jsstring" where
  "deploy_contract_id cname timestamp account =
     cname @ ustr ''_'' @ number_toString timestamp @ ustr ''.'' @ account"

text \<open>
  Reading \<^verbatim>\<open>nearConnection.wallet\<close> when \<^verbatim>\<open>nearConnection\<close> is \<^verbatim>\<open>null\<close> throws a
  TypeError (the message is the engine's; this is V8's).
\<close>

definition null_wallet_error :: js_error where
  "null_wallet_error =
     Error (ustr ''TypeError'') (ustr ''Cannot read properties of null (reading 'wallet')'')"

text \<open>The \<^verbatim>\<open>catch\<close> and \<^verbatim>\<open>finally\<close> blocks, on the state of the moment.\<close>

definition deployContract_catch :: "js_error \<Rightarrow> session \<Rightarrow> session" where
  "deployContract_catch e s = s\<lparr>deployResult := Some (deploy_failure e)\<rparr>"

definition deployContract_finally :: "session \<Rightarrow> session" where
  "deployContract_finally s = s\<lparr>deploying := False\<rparr>"

text \<open>
  The continuation after the first \<^verbatim>\<open>await\<close>, the artifact download, run on the
  state \<open>s\<close> of that moment. The handler is a closure over the state \<open>s0\<close> it was invoked
  in: \<^verbatim>\<open>contractName\<close>, \<^verbatim>\<open>wallet\<close> and \<^verbatim>\<open>nearConnection\<close> are read from there.
  \<open>now\<close> is what \<^verbatim>\<open>Date.now()\<close> returns. Either the cycle ends in the \<^verbatim>\<open>catch\<close>
  block, or the wallet is asked to deploy and the cycle waits again; the third component
  is then the identifier it has composed.
\<close>

definition deployContract_fetched ::
  "session \<Rightarrow> 8 word list settled \<Rightarrow> int \<Rightarrow> session \<Rightarrow> session \<times> event list \<times> jsstring option" where
  "deployContract_fetched s0 r now s =
     (case r of
        Rejected e \<Rightarrow> (deployContract_finally (deployContract_catch e s), [ConsoleError], None)
      | Resolved wasmCode \<Rightarrow>
          (case nearConnection s0 of
             None \<Rightarrow>
               (deployContract_finally (deployContract_catch null_wallet_error s),
                [ConsoleError], None)
           | Some c \<Rightarrow>
               (s, [WalletDeployContract wasmCode],
                Some (deploy_contract_id (contractName s0) now (accountId (wallet s0))))))"

text \<open>
  The continuation after the second \<^verbatim>\<open>await\<close>: the wallet call has settled, with the
  hash of the transaction when it resolved. \<open>cid\<close> is the identifier composed before.
\<close>

definition deployContract_sent :: "jsstring \<Rightarrow> jsstring settled \<Rightarrow> session \<Rightarrow> session \<times> event list" where
  "deployContract_sent cid r s =
     (case r of
        Rejected e \<Rightarrow> (deployContract_finally (deployContract_catch e s), [ConsoleError])
      | Resolved hash \<Rightarrow>
          (deployContract_finally
             (s\<lparr>deployResult :=
                  Some \<lparr>deploy_success = True, transactionHash = Some hash,
                        contractId = Some cid, error = None\<rparr>\<rparr>), []))"

definition downloadWasm :: "session \<Rightarrow> session \<times> event list" where
  "downloadWasm s = (if compiled_ok s then (s, [WindowOpenWasm (contractName s)]) else (s, []))"

subsection \<open>A whole deploy cycle\<close>

text \<open>
  A deploy cycle that passed the validation in \<open>s0\<close> ends after the download (when it
  fails, in state \<open>sa\<close>) or after the wallet call (in state \<open>sb\<close>). \<open>r1\<close> and \<open>r2\<close> are
  the two settled promises; \<open>r2\<close> is only looked at when the wallet was called.
\<close>

definition deploy_cycle_end ::
  "session \<Rightarrow> 8 word list settled \<Rightarrow> int \<Rightarrow> jsstring settled \<Rightarrow> session \<Rightarrow> session \<Rightarrow> session" where
  "deploy_cycle_end s0 r1 now r2 sa sb =
     (case deployContract_fetched s0 r1 now sa of
        (s', es, None) \<Rightarrow> s'
      | (s', es, Some cid) \<Rightarrow> fst (deployContract_sent cid r2 sb))"

subsection \<open>The buttons\<close>

text \<open>
  The compile button is rendered with \<^verbatim>\<open>disabled={compiling}\<close> and
  \<^verbatim>\<open>onClick={compileContract}\<close>; a disabled button does not call its handler.
\<close>

definition compile_button_disabled :: "session \<Rightarrow> bool" where
  "compile_button_disabled s = compiling s"

definition compile_button_click :: "session \<Rightarrow> session \<times> event list" where
  "compile_button_click s = (if compile_button_disabled s then (s, []) else compileContract s)"

subsection \<open>The component as a transition system\<close>

text \<open>
  The session together with the promises that are pending: the number of compile
  requests, the deploy cycles waiting for their download (each the state it was invoked
  in, which its closure holds), and the deploy cycles waiting for the wallet (each the
  identifier it composed). An action is a handler invocation, an edit, or the settling of
  a pending promise; the mount effect's two calls settle as \<open>Near_initialized\<close> and
  \<open>Templates_fetched\<close>. The handlers can be invoked in any state, whatever the buttons
  show, so every state the page can reach is reachable here.
\<close>

record system =
  current :: session
  compiles_pending :: nat
  downloads_pending :: "session list"
  deployments_pending :: "jsstring list"

definition idle :: "session \<Rightarrow> system" where
  "idle s =
     \<lparr>current = s, compiles_pending = 0, downloads_pending = [], deployments_pending = []\<rparr>"

definition initial_system :: system where
  "initial_system = idle initial_session"

datatype action =
    Near_initialized "jsstring option settled"
  | Templates_fetched "ContractTemplate list settled"
  | Code_edited jsstring
  | Name_edited jsstring
  | Connect_wallet
  | Disconnect_wallet
  | Template_chosen jsstring
  | Compile
  | Compile_settled "CompileResponse settled"
  | Deploy
  | Download_settled nat "8 word list settled" int
  | Deployment_settled nat "jsstring settled"
  | Download_wasm

definition remove_nth :: "nat \<Rightarrow> 'a list \<Rightarrow> 'a list" where
  "remove_nth i xs = take i xs @ drop (Suc i) xs"

fun exec :: "(jsstring \<Rightarrow> jsstring) \<Rightarrow> action \<Rightarrow> system \<Rightarrow> (system \<times> event list) option" where
  "exec lc (Near_initialized r) y =
     (case initializeNear_settled r (current y) of (s, es) \<Rightarrow> Some (y\<lparr>current := s\<rparr>, es))"
| "exec lc (Templates_fetched r) y =
     (case fetchTemplates_settled r (current y) of (s, es) \<Rightarrow> Some (y\<lparr>current := s\<rparr>, es))"
| "exec lc (Code_edited v) y = Some (y\<lparr>current := (current y)\<lparr>code := v\<rparr>\<rparr>, [])"
| "exec lc (Name_edited v) y = Some (y\<lparr>current := (current y)\<lparr>contractName := v\<rparr>\<rparr>, [])"
| "exec lc Connect_wallet y =
     (case connectWallet (current y) of (s, es) \<Rightarrow> Some (y\<lparr>current := s\<rparr>, es))"
| "exec lc Disconnect_wallet y =
     (case disconnectWallet (current y) of (s, es) \<Rightarrow> Some (y\<lparr>current := s\<rparr>, es))"
| "exec lc (Template_chosen n) y = Some (y\<lparr>current := loadTemplate lc n (current y)\<rparr>, [])"
| "exec lc Compile y =
     (case compileContract (current y) of
        (s, es) \<Rightarrow>
          Some (y\<lparr>current := s,
                  compiles_pending := compiles_pending y + length (filter is_network_call es)\<rparr>,
                es))"
| "exec lc (Compile_settled r) y =
     (if compiles_pending y = 0 then None
      else Some (y\<lparr>current := compileContract_settled r (current y),
                   compiles_pending := compiles_pending y - 1\<rparr>, []))"
| "exec lc Deploy y =
     (case deployContract (current y) of
        (s, es) \<Rightarrow>
          Some (y\<lparr>current := s,
                  downloads_pending :=
                    downloads_pending y @ map (\<lambda>e. current y) (filter is_network_call es)\<rparr>,
                es))"
| "exec lc (Download_settled i r now) y =
     (if length (downloads_pending y) \<le> i then None
      else
        (case deployContract_fetched (downloads_pending y ! i) r now (current y) of
           (s, es, w) \<Rightarrow>
             Some (y\<lparr>current := s,
                     downloads_pending := remove_nth i (downloads_pending y),
                     deployments_pending :=
                       deployments_pending y @ (case w of None \<Rightarrow> [] | Some cid \<Rightarrow> [cid])\<rparr>,
                   es)))"
| "exec lc (Deployment_settled i r) y =
     (if length (deployments_pending y) \<le> i then None
      else
        (case deployContract_sent (deployments_pending y ! i) r (current y) of
           (s, es) \<Rightarrow>
             Some (y\<lparr>current := s,
                     deployments_pending := remove_nth i (deployments_pending y)\<rparr>, es)))"
| "exec lc Download_wasm y =
     (case downloadWasm (current y) of (s, es) \<Rightarrow> Some (y\<lparr>current := s\<rparr>, es))"

inductive reachable :: "(jsstring \<Rightarrow> jsstring) \<Rightarrow> system \<Rightarrow> bool" for lc where
  start: "reachable lc initial_system"
| after: "reachable lc y \<Longrightarrow> exec lc a y = Some (y', es) \<Longrightarrow> reachable lc y'"

text \<open>The actions in which a pending promise settles and its continuation runs.\<close>

fun settles :: "action \<Rightarrow> bool" where
  "settles (Compile_settled r) = True"
| "settles (Download_settled i r now) = True"
| "settles (Deployment_settled i r) = True"
| "settles a = False"

text \<open>A sequence of actions, from a given state; \<open>None\<close> when one of them cannot happen.\<close>

fun run :: "(jsstring \<Rightarrow> jsstring) \<Rightarrow> action list \<Rightarrow> system \<Rightarrow> system option" where
  "run lc [] y = Some y"
| "run lc (a # as) y = (case exec lc a y of None \<Rightarrow> None | Some (y', es) \<Rightarrow> run lc as y')"

text \<open>
  Without a provider context nobody is signed in, there is no deploy result and no deploy
  cycle is under way. Every reachable state is so (\<open>reachable_provider_invariant\<close>).
\<close>

definition provider_invariant :: "system \<Rightarrow> bool" where
  "provider_invariant y \<longleftrightarrow>
     (nearConnection (current y) = None \<longrightarrow>
        wallet (current y) = signed_out \<and> deployResult (current y) = None \<and>
        downloads_pending y = [] \<and> deployments_pending y = [])"

subsection \<open>The normal form of a template name, in the specification's words\<close>

text \<open>
  ``Lowercase, whitespace-to-underscore'': cut the lowercased name into its maximal runs
  of whitespace and of other code units, and put one underscore for each run of
  whitespace.
\<close>

function maximal_runs :: "jsstring \<Rightarrow> jsstring list" where
  "maximal_runs [] = []"
| "maximal_runs (c # cs) =
     (c # takeWhile (\<lambda>d. is_whitespace d = is_whitespace c) cs) #
     maximal_runs (dropWhile (\<lambda>d. is_whitespace d = is_whitespace c) cs)"
  by pat_completeness auto
termination
  by (relation "measure length") (auto simp: less_Suc_eq_le length_dropWhile_le)

definition underscore_for_whitespace :: "jsstring \<Rightarrow> jsstring" where
  "underscore_for_whitespace n =
     concat (map (\<lambda>r. if list_all is_whitespace r then ustr ''_'' else r) (maximal_runs n))"

subsection \<open>Example data\<close>

text \<open>
  \<open>ascii_toLowerCase\<close> is what \<^verbatim>\<open>toLowerCase\<close> does on ASCII strings. The trace is a
  session in which a user who is signed in as \<open>alice.testnet\<close> loads a template,
  compiles with success and deploys with success.
\<close>

definition ascii_toLowerCase :: "jsstring \<Rightarrow> jsstring" where
  "ascii_toLowerCase = map (\<lambda>c. if 0x0041 \<le> c \<and> c \<le> 0x005A then c + 0x0020 else c)"

definition example_template :: ContractTemplate where
  "example_template =
     \<lparr>tpl_name = ustr ''Fungible  Token'', tpl_description = ustr ''A token'',
      tpl_code = ustr ''pub struct Token {}''\<rparr>"

definition example_response :: CompileResponse where
  "example_response =
     \<lparr>success = True, compile_output = ustr ''Finished'', errors = None, wasm_size = Some 1024\<rparr>"

definition example_compiled :: "action list" where
  "example_compiled =
     [Near_initialized (Resolved (Some (ustr ''alice.testnet''))),
      Templates_fetched (Resolved [example_template]),
      Template_chosen (ustr ''Fungible  Token''),
      Compile,
      Compile_settled (Resolved example_response)]"

definition example_deployed :: "action list" where
  "example_deployed =
     example_compiled @
     [Deploy,
      Download_settled 0 (Resolved [0x00, 0x61, 0x73, 0x6D]) 1730000000123,
      Deployment_settled 0 (Resolved (ustr ''9xKq''))]"

text \<open>The states the trace is in after the compilation and after the deployment.\<close>

definition compiled_session :: session where
  "compiled_session =
     \<lparr>code = ustr ''pub struct Token {}'', contractName = ustr ''fungible_token'',
      compiling = False, deploying = False, compileResult = Some example_response,
      deployResult = None, templates = [example_template],
      selectedTemplate = ustr ''Fungible  Token'', loading = False,
      wallet = \<lparr>accountId = ustr ''alice.testnet'', isSignedIn = True\<rparr>,
      nearConnection = Some NearConnection\<rparr>"

definition deployed_session :: session where
  "deployed_session =
     compiled_session
       \<lparr>deployResult :=
          Some \<lparr>deploy_success = True, transactionHash = Some (ustr ''9xKq''),
                contractId = Some (ustr ''fungible_token_1730000000123.alice.testnet''),
                error = None\<rparr>\<rparr>"

text \<open>
  The same session, but the user clicks Compile again while the deployment is under
  way, and the deployment then completes; and the state this ends in.
\<close>

definition example_overlapping :: "action list" where
  "example_overlapping =
     example_compiled @
     [Deploy,
      Compile,
      Download_settled 0 (Resolved [0x00, 0x61, 0x73, 0x6D]) 1730000000123,
      Deployment_settled 0 (Resolved (ustr ''9xKq''))]"

definition overlapping_session :: session where
  "overlapping_session = deployed_session\<lparr>compiling := True, compileResult := None\<rparr>"

section \<open>Properties\<close>

lemmas handler_defs =
  initializeNear_settled_def fetchTemplates_settled_def connectWallet_def
  disconnectWallet_def loadTemplate_def compileContract_def compileContract_settled_def
  deployContract_def deployContract_fetched_def deployContract_sent_def
  deployContract_catch_def deployContract_finally_def downloadWasm_def

subsection \<open>The example trace\<close>

lemma number_example: "number_toString 1730000000123 = ustr ''1730000000123''"
  by (simp add: number_toString_def nat_digits.simps digit_unit_def ustr_def)

lemma run_append:
  "run lc (as @ bs) y = (case run lc as y of None \<Rightarrow> None | Some y' \<Rightarrow> run lc bs y')"
  by (induction as arbitrary: y) (auto split: option.splits)

lemma run_example_compiled:
  "run ascii_toLowerCase example_compiled initial_system = Some (idle compiled_session)"
  by (simp add: example_compiled_def initial_system_def idle_def initial_session_def
      compiled_session_def example_template_def example_response_def handler_defs
      signed_out_def ascii_toLowerCase_def ustr_def trim_def is_whitespace_def compiled_ok_def)

lemma run_example_deployed:
  "run ascii_toLowerCase example_deployed initial_system = Some (idle deployed_session)"
  unfolding example_deployed_def run_append run_example_compiled
  by (simp add: idle_def deployed_session_def compiled_session_def example_response_def
      handler_defs compiled_ok_def remove_nth_def deploy_contract_id_def number_example)
     (simp add: ustr_def)

lemma reachable_run: "reachable lc y \<Longrightarrow> run lc as y = Some y' \<Longrightarrow> reachable lc y'"
proof (induction as arbitrary: y)
  case Nil
  then show ?case by simp
next
  case (Cons a as)
  then show ?case
    by (auto split: option.splits intro: reachable.after)
qed

lemma reachable_compiled: "reachable ascii_toLowerCase (idle compiled_session)"
  using reachable_run [OF reachable.start run_example_compiled] .

lemma reachable_deployed: "reachable ascii_toLowerCase (idle deployed_session)"
  using reachable_run [OF reachable.start run_example_deployed] .

lemma compiled_session_valid:
  "trim (code compiled_session) \<noteq> []" "trim (contractName compiled_session) \<noteq> []"
  by (simp_all add: compiled_session_def trim_def ustr_def is_whitespace_def)

subsection \<open>The provider invariant\<close>

lemma exec_provider_invariant:
  assumes "provider_invariant y" "exec lc a y = Some (y', es)"
  shows "provider_invariant y'"
  using assms
  by (cases a)
     (auto simp: provider_invariant_def handler_defs signed_out_def
        split: if_splits option.splits settled.splits prod.splits)

lemma reachable_provider_invariant: "reachable lc y \<Longrightarrow> provider_invariant y"
proof (induction rule: reachable.induct)
  case start
  then show ?case
    by (simp add: provider_invariant_def initial_system_def idle_def initial_session_def)
next
  case (after y a y' es)
  then show ?case using exec_provider_invariant by blast
qed

lemma signed_in_has_provider:
  assumes "reachable lc y" "isSignedIn (wallet (current y))"
  shows "nearConnection (current y) \<noteq> None"
  using reachable_provider_invariant [OF assms(1)] assms(2)
  by (auto simp: provider_invariant_def signed_out_def)

subsection \<open>Validation of the compile inputs\<close>

lemma dropWhile_all: "(\<forall>x\<in>set (dropWhile P s). P x) \<longleftrightarrow> (\<forall>x\<in>set s. P x)"
  by (induction s) auto

lemma trim_empty_iff: "trim s = [] \<longleftrightarrow> (\<forall>c \<in> set s. is_whitespace c)"
  by (simp add: trim_def dropWhile_all)

text \<open>
  C3. When the source text or the contract name is empty after trimming, that is, when
  one of them consists of whitespace only, the compile handler only raises the alert: it
  issues no request and returns the state it was given, results and in-flight flags
  included.
\<close>

theorem compile_rejects_blank_input:
  assumes "trim (code s) = [] \<or> trim (contractName s) = []"
  shows "compileContract s = (s, [Alert (ustr ''Please provide both contract name and code'')])
         \<and> filter is_network_call (snd (compileContract s)) = []"
  using assms by (simp add: compileContract_def)

theorem compile_rejects_blank_input_witness:
  "trim (contractName (initial_session\<lparr>contractName := ustr ''  ''\<rparr>)) = []
   \<and> compileContract (initial_session\<lparr>contractName := ustr ''  ''\<rparr>) =
       (initial_session\<lparr>contractName := ustr ''  ''\<rparr>,
        [Alert (ustr ''Please provide both contract name and code'')])"
proof -
  have h: "trim (contractName (initial_session\<lparr>contractName := ustr ''  ''\<rparr>)) = []"
    by (simp add: trim_def ustr_def is_whitespace_def)
  from compile_rejects_blank_input [OF disjI2, OF h] h show ?thesis by blast
qed

subsection \<open>The compile cycle\<close>

text \<open>
  A deploy cycle that is under way when the compile handler is invoked is not stopped by
  it. The compile button is enabled then (only the compiling flag disables it), the
  handler clears both results, and when the deployment completes its continuation
  writes the deploy result: the session holds the result of the earlier cycle while the
  compile request is still pending.
\<close>

theorem deploy_result_arrives_during_compile:
  "run ascii_toLowerCase example_overlapping initial_system =
     Some \<lparr>current = overlapping_session, compiles_pending = 1, downloads_pending = [],
           deployments_pending = []\<rparr>
   \<and> \<not> compile_button_disabled (compiled_session\<lparr>deploying := True, deployResult := None\<rparr>)
   \<and> compiling overlapping_session
   \<and> deployResult overlapping_session =
       Some \<lparr>deploy_success = True, transactionHash = Some (ustr ''9xKq''),
             contractId = Some (ustr ''fungible_token_1730000000123.alice.testnet''),
             error = None\<rparr>"
proof -
  have "run ascii_toLowerCase example_overlapping initial_system =
     Some \<lparr>current = overlapping_session, compiles_pending = 1, downloads_pending = [],
           deployments_pending = []\<rparr>"
    unfolding example_overlapping_def run_append run_example_compiled
    by (simp add: idle_def overlapping_session_def deployed_session_def compiled_session_def
        example_response_def handler_defs compiled_ok_def remove_nth_def
        deploy_contract_id_def number_example trim_def)
       (simp add: ustr_def is_whitespace_def)
  moreover have "\<not> compile_button_disabled
      (compiled_session\<lparr>deploying := True, deployResult := None\<rparr>)"
    by (simp add: compile_button_disabled_def compiled_session_def)
  ultimately show ?thesis
    by (simp add: overlapping_session_def deployed_session_def)
qed

text \<open>
  C5, as the code has it. Invoked with a source text and a contract name that are not
  blank, the compile handler leaves the state with the compiling flag set and with both
  results cleared, and issues the one request, for the source and the name of the state
  it was invoked in: no result held before the invocation survives it. While the compile
  is in flight only a cycle that settles writes a result (a deploy cycle started earlier
  may): no other action puts a result where there is none.
\<close>

theorem compile_start_clears_results:
  assumes "trim (code s) \<noteq> []" "trim (contractName s) \<noteq> []"
  shows "compileContract s =
           (s\<lparr>compiling := True, compileResult := None, deployResult := None\<rparr>,
            [PostCompile (code s) (contractName s)])
     \<and> (\<not> settles a \<and> exec lc a y = Some (y', es) \<longrightarrow>
          (compileResult (current y) = None \<longrightarrow> compileResult (current y') = None)
          \<and> (deployResult (current y) = None \<longrightarrow> deployResult (current y') = None))"
proof -
  have 1: "compileContract s =
           (s\<lparr>compiling := True, compileResult := None, deployResult := None\<rparr>,
            [PostCompile (code s) (contractName s)])"
    using assms by (simp add: compileContract_def)
  have 2: "(compileResult (current y) = None \<longrightarrow> compileResult (current y') = None)
          \<and> (deployResult (current y) = None \<longrightarrow> deployResult (current y') = None)"
    if "\<not> settles a" "exec lc a y = Some (y', es)"
    using that
    by (cases a)
       (auto simp: handler_defs split: if_splits option.splits settled.splits prod.splits)
  from 1 2 show ?thesis by blast
qed

theorem compile_start_clears_results_witness:
  "compileResult deployed_session \<noteq> None \<and> deployResult deployed_session \<noteq> None
   \<and> compileContract deployed_session =
       (deployed_session\<lparr>compiling := True, compileResult := None, deployResult := None\<rparr>,
        [PostCompile (ustr ''pub struct Token {}'') (ustr ''fungible_token'')])"
proof -
  have v: "trim (code deployed_session) \<noteq> []" "trim (contractName deployed_session) \<noteq> []"
    by (simp_all add: deployed_session_def compiled_session_def trim_def ustr_def
        is_whitespace_def)
  have c: "code deployed_session = ustr ''pub struct Token {}''"
    "contractName deployed_session = ustr ''fungible_token''"
    "compileResult deployed_session \<noteq> None" "deployResult deployed_session \<noteq> None"
    by (simp_all add: deployed_session_def compiled_session_def)
  from compile_start_clears_results [OF v] c show ?thesis by simp
qed

text \<open>
  C4. A compile invocation whose inputs are not blank issues one request, and when that
  request settles, in whatever state the session then is, the continuation leaves the
  compiling flag false and a compile result set: the response's data when the request
  resolved, and when it was rejected a result with \<open>success\<close> false whose error text is
  ``Network error: '' followed by the error, hence not empty.
\<close>

theorem compile_cycle_always_ends:
  assumes "trim (code s) \<noteq> []" "trim (contractName s) \<noteq> []"
  shows "snd (compileContract s) = [PostCompile (code s) (contractName s)]
     \<and> compiling (compileContract_settled r s') = False
     \<and> compileResult (compileContract_settled r s') \<noteq> None
     \<and> (\<forall>d. r = Resolved d \<longrightarrow> compileResult (compileContract_settled r s') = Some d)
     \<and> (\<forall>e. r = Rejected e \<longrightarrow>
           compileResult (compileContract_settled r s') =
             Some \<lparr>success = False, compile_output = [],
                   errors = Some (ustr ''Network error: '' @ error_toString e),
                   wasm_size = None\<rparr>
           \<and> ustr ''Network error: '' @ error_toString e \<noteq> [])"
  using assms
  by (cases r) (simp_all add: compileContract_def compileContract_settled_def ustr_def)

theorem compile_cycle_always_ends_witness:
  "compiling
     (compileContract_settled (Rejected (Error (ustr ''AxiosError'') (ustr ''Network Error'')))
        (fst (compileContract compiled_session))) = False
   \<and> compileResult
       (compileContract_settled (Rejected (Error (ustr ''AxiosError'') (ustr ''Network Error'')))
          (fst (compileContract compiled_session))) =
       Some \<lparr>success = False, compile_output = [],
             errors = Some (ustr ''Network error: AxiosError: Network Error''),
             wasm_size = None\<rparr>"
  using compile_cycle_always_ends [OF compiled_session_valid,
      of "Rejected (Error (ustr ''AxiosError'') (ustr ''Network Error''))"
         "fst (compileContract compiled_session)"]
  by (simp add: error_toString_def ustr_def)

text \<open>
  The compile handler does not read the compiling flag: in the state that a first
  invocation leaves, with the flag set, a second invocation issues a second request.
\<close>

theorem second_compile_issues_request:
  "compiling (fst (compileContract (initial_session\<lparr>code := ustr ''x''\<rparr>)))
   \<and> snd (compileContract (fst (compileContract (initial_session\<lparr>code := ustr ''x''\<rparr>)))) =
       [PostCompile (ustr ''x'') (ustr ''hello_near'')]"
  by (simp add: compileContract_def initial_session_def trim_def ustr_def is_whitespace_def)

text \<open>
  C2, as the code has it. While the compiling flag is set the compile button is disabled
  and a click on it invokes nothing: no request, no change of state. The guard is the
  disabled button; the compile handler itself does not look at the flag and, invoked
  with inputs that are not blank, issues a request whatever the flag is.
\<close>

theorem compile_guard_is_the_button:
  "(compiling s \<longrightarrow> compile_button_disabled s \<and> compile_button_click s = (s, []))
   \<and> (trim (code s) \<noteq> [] \<and> trim (contractName s) \<noteq> [] \<longrightarrow>
        snd (compileContract s) = [PostCompile (code s) (contractName s)])"
  by (simp add: compile_button_disabled_def compile_button_click_def compileContract_def)

theorem compile_guard_is_the_button_witness:
  "compiling (compiled_session\<lparr>compiling := True\<rparr>)
   \<and> compile_button_click (compiled_session\<lparr>compiling := True\<rparr>) =
       (compiled_session\<lparr>compiling := True\<rparr>, [])
   \<and> snd (compileContract (compiled_session\<lparr>compiling := True\<rparr>)) =
       [PostCompile (ustr ''pub struct Token {}'') (ustr ''fungible_token'')]"
  using compile_guard_is_the_button [of "compiled_session\<lparr>compiling := True\<rparr>"]
    compiled_session_valid
  by (simp add: compiled_session_def)

subsection \<open>The deploy cycle\<close>

lemma deployContract_starts:
  "deploying (fst (deployContract s)) \<Longrightarrow> \<not> deploying s \<Longrightarrow>
     compiled_ok s \<and> isSignedIn (wallet s)"
  by (auto simp: deployContract_def split: if_splits)

lemma exec_deploying:
  assumes "exec lc a y = Some (y', es)" "\<not> deploying (current y)" "deploying (current y')"
  shows "a = Deploy"
  using assms
  by (cases a)
     (auto simp: handler_defs split: if_splits option.splits settled.splits prod.splits)

text \<open>
  C1. Whatever the component does, the deploying flag goes from false to true only in an
  invocation of the deploy handler, in a state whose last compile result exists with
  \<open>success\<close> true and whose wallet is signed in. When either condition fails, the deploy
  handler only raises an alert: no request, and the state (the results in it) is as
  before.
\<close>

theorem deploy_starts_only_when_compiled_and_signed_in:
  "(exec lc a y = Some (y', es) \<and> \<not> deploying (current y) \<and> deploying (current y') \<longrightarrow>
      a = Deploy \<and> (\<exists>r. compileResult (current y) = Some r \<and> success r)
      \<and> isSignedIn (wallet (current y)))
   \<and> (\<not> ((\<exists>r. compileResult s = Some r \<and> success r) \<and> isSignedIn (wallet s)) \<longrightarrow>
        fst (deployContract s) = s \<and> (\<exists>m. snd (deployContract s) = [Alert m])
        \<and> filter is_network_call (snd (deployContract s)) = [])"
proof (intro conjI impI)
  assume h: "exec lc a y = Some (y', es) \<and> \<not> deploying (current y) \<and> deploying (current y')"
  then show a: "a = Deploy" using exec_deploying by blast
  from h a have "deploying (fst (deployContract (current y)))"
    by (auto split: prod.splits)
  with h have c: "compiled_ok (current y) \<and> isSignedIn (wallet (current y))"
    using deployContract_starts by blast
  then show "\<exists>r. compileResult (current y) = Some r \<and> success r"
    by (auto simp: compiled_ok_def split: option.splits)
  from c show "isSignedIn (wallet (current y))" by simp
next
  assume "\<not> ((\<exists>r. compileResult s = Some r \<and> success r) \<and> isSignedIn (wallet s))"
  then have n: "\<not> compiled_ok s \<or> \<not> isSignedIn (wallet s)"
    by (auto simp: compiled_ok_def split: option.splits)
  then show "fst (deployContract s) = s" by (auto simp: deployContract_def)
  from n show "\<exists>m. snd (deployContract s) = [Alert m]" by (auto simp: deployContract_def)
  from n show "filter is_network_call (snd (deployContract s)) = []"
    by (auto simp: deployContract_def)
qed

theorem deploy_starts_only_when_compiled_and_signed_in_witness:
  "exec ascii_toLowerCase Deploy (idle compiled_session) =
     Some (\<lparr>current = compiled_session\<lparr>deploying := True, deployResult := None\<rparr>,
            compiles_pending = 0, downloads_pending = [compiled_session],
            deployments_pending = []\<rparr>,
           [GetWasm (ustr ''fungible_token'')])
   \<and> (\<exists>r. compileResult compiled_session = Some r \<and> success r)
   \<and> isSignedIn (wallet compiled_session)
   \<and> compileResult initial_session = None
   \<and> fst (deployContract initial_session) = initial_session
   \<and> filter is_network_call (snd (deployContract initial_session)) = []"
proof -
  let ?Y = "\<lparr>current = compiled_session\<lparr>deploying := True, deployResult := None\<rparr>,
            compiles_pending = 0, downloads_pending = [compiled_session],
            deployments_pending = []\<rparr>"
  let ?ES = "[GetWasm (ustr ''fungible_token'')]"
  have e: "exec ascii_toLowerCase Deploy (idle compiled_session) = Some (?Y, ?ES)"
    by (simp add: idle_def deployContract_def compiled_ok_def compiled_session_def
        example_response_def)
  have d: "\<not> deploying (current (idle compiled_session))" "deploying (current ?Y)"
    by (simp_all add: idle_def compiled_session_def)
  have i: "compileResult initial_session = None"
    by (simp add: initial_session_def)
  then have n: "\<not> ((\<exists>r. compileResult initial_session = Some r \<and> success r)
                 \<and> isSignedIn (wallet initial_session))"
    by simp
  note t = deploy_starts_only_when_compiled_and_signed_in
    [of ascii_toLowerCase Deploy "idle compiled_session" ?Y ?ES initial_session]
  from t e d have a: "(\<exists>r. compileResult (current (idle compiled_session)) = Some r \<and> success r)
      \<and> isSignedIn (wallet (current (idle compiled_session)))"
    by blast
  from t n have b: "fst (deployContract initial_session) = initial_session
      \<and> filter is_network_call (snd (deployContract initial_session)) = []"
    by blast
  from a have "(\<exists>r. compileResult compiled_session = Some r \<and> success r)
      \<and> isSignedIn (wallet compiled_session)"
    by (simp add: idle_def)
  with e i b show ?thesis by blast
qed

lemma deploy_failure_shape:
  "deploy_success (deploy_failure e) = False \<and> transactionHash (deploy_failure e) = None
   \<and> contractId (deploy_failure e) = None
   \<and> (\<exists>m. m \<noteq> [] \<and> error (deploy_failure e) = Some m)"
  by (simp add: deploy_failure_def ustr_def)

text \<open>
  C6. A deploy invocation in a reachable state that passes the two checks sets the
  deploying flag and asks for the artifact. When the cycle has run, whatever the session
  did in between, the deploying flag is false; if the download was rejected, or the
  wallet call (signing and submission) was, the deploy result is the one failure shape:
  \<open>success\<close> false, no transaction, no contract identifier, and a message that is not
  empty; if both resolved, the result has \<open>success\<close> true, the hash of the transaction
  and the composed contract identifier.
\<close>

theorem deploy_cycle_outcome:
  assumes "reachable lc y" "compiled_ok (current y)" "isSignedIn (wallet (current y))"
  shows "deployContract (current y) =
           ((current y)\<lparr>deploying := True, deployResult := None\<rparr>,
            [GetWasm (contractName (current y))])
     \<and> deploying (deploy_cycle_end (current y) r1 now r2 sa sb) = False
     \<and> (\<forall>e. r1 = Rejected e \<or> (\<exists>w. r1 = Resolved w \<and> r2 = Rejected e) \<longrightarrow>
           deployResult (deploy_cycle_end (current y) r1 now r2 sa sb) = Some (deploy_failure e)
           \<and> deploy_success (deploy_failure e) = False
           \<and> transactionHash (deploy_failure e) = None
           \<and> contractId (deploy_failure e) = None
           \<and> (\<exists>m. m \<noteq> [] \<and> error (deploy_failure e) = Some m))
     \<and> (\<forall>w h. r1 = Resolved w \<and> r2 = Resolved h \<longrightarrow>
           deployResult (deploy_cycle_end (current y) r1 now r2 sa sb) =
             Some \<lparr>deploy_success = True, transactionHash = Some h,
                   contractId =
                     Some (deploy_contract_id (contractName (current y)) now
                             (accountId (wallet (current y)))),
                   error = None\<rparr>)"
proof -
  from signed_in_has_provider [OF assms(1,3)]
  obtain c where c: "nearConnection (current y) = Some c" by auto
  have 1: "deployContract (current y) =
           ((current y)\<lparr>deploying := True, deployResult := None\<rparr>,
            [GetWasm (contractName (current y))])"
    using assms(2,3) by (simp add: deployContract_def)
  have 2: "deploying (deploy_cycle_end (current y) r1 now r2 sa sb) = False"
    using c
    by (cases r1; cases r2)
       (simp_all add: deploy_cycle_end_def deployContract_fetched_def deployContract_sent_def
          deployContract_catch_def deployContract_finally_def)
  have 3: "deployResult (deploy_cycle_end (current y) r1 now r2 sa sb) = Some (deploy_failure e)"
    if "r1 = Rejected e \<or> (\<exists>w. r1 = Resolved w \<and> r2 = Rejected e)" for e
    using that c
    by (auto simp: deploy_cycle_end_def deployContract_fetched_def deployContract_sent_def
          deployContract_catch_def deployContract_finally_def)
  have 4: "deployResult (deploy_cycle_end (current y) r1 now r2 sa sb) =
             Some \<lparr>deploy_success = True, transactionHash = Some h,
                   contractId =
                     Some (deploy_contract_id (contractName (current y)) now
                             (accountId (wallet (current y)))),
                   error = None\<rparr>"
    if "r1 = Resolved w \<and> r2 = Resolved h" for w h
    using that c
    by (simp add: deploy_cycle_end_def deployContract_fetched_def deployContract_sent_def
          deployContract_finally_def)
  from 1 2 3 4 deploy_failure_shape show ?thesis by blast
qed

theorem deploy_cycle_outcome_witness:
  "compiled_ok compiled_session \<and> isSignedIn (wallet compiled_session)
   \<and> deploying
       (deploy_cycle_end compiled_session
          (Rejected (Error (ustr ''AxiosError'') (ustr ''Network Error''))) 1730000000123
          (Resolved (ustr ''9xKq'')) (compiled_session\<lparr>deploying := True\<rparr>)
          (compiled_session\<lparr>deploying := True\<rparr>)) = False
   \<and> deployResult
       (deploy_cycle_end compiled_session
          (Rejected (Error (ustr ''AxiosError'') (ustr ''Network Error''))) 1730000000123
          (Resolved (ustr ''9xKq'')) (compiled_session\<lparr>deploying := True\<rparr>)
          (compiled_session\<lparr>deploying := True\<rparr>)) =
       Some \<lparr>deploy_success = False, transactionHash = None, contractId = None,
             error = Some (ustr ''Network Error'')\<rparr>"
proof -
  let ?e = "Error (ustr ''AxiosError'') (ustr ''Network Error'')"
  let ?s = "compiled_session\<lparr>deploying := True\<rparr>"
  have cur: "current (idle compiled_session) = compiled_session"
    by (simp add: idle_def)
  have h: "compiled_ok (current (idle compiled_session))"
    "isSignedIn (wallet (current (idle compiled_session)))"
    by (simp_all add: idle_def compiled_ok_def compiled_session_def example_response_def)
  have f: "deploy_failure ?e =
      \<lparr>deploy_success = False, transactionHash = None, contractId = None,
       error = Some (ustr ''Network Error'')\<rparr>"
    by (simp add: deploy_failure_def ustr_def)
  note t = deploy_cycle_outcome [OF reachable_compiled h,
      of "Rejected ?e" 1730000000123 "Resolved (ustr ''9xKq'')" ?s ?s]
  from t have a: "deploying (deploy_cycle_end (current (idle compiled_session)) (Rejected ?e)
        1730000000123 (Resolved (ustr ''9xKq'')) ?s ?s) = False"
    by blast
  from t have b: "deployResult (deploy_cycle_end (current (idle compiled_session)) (Rejected ?e)
        1730000000123 (Resolved (ustr ''9xKq'')) ?s ?s) = Some (deploy_failure ?e)"
    by blast
  from a b h show ?thesis unfolding cur f by blast
qed

subsection \<open>The contract identifier\<close>












subsection \<open>The wallet\<close>

text \<open>
  C9. In every reachable state, disconnecting the wallet leaves the state it was invoked
  in with the wallet identity at its signed-out default and with no deploy result; the
  compile result, the source text, the contract name, the template selection and every
  other field are as before.
\<close>

theorem disconnect_clears_deploy_result_only:
  assumes "reachable lc y"
  shows "fst (disconnectWallet (current y)) =
           (current y)\<lparr>wallet := signed_out, deployResult := None\<rparr>
     \<and> compileResult (fst (disconnectWallet (current y))) = compileResult (current y)
     \<and> code (fst (disconnectWallet (current y))) = code (current y)
     \<and> contractName (fst (disconnectWallet (current y))) = contractName (current y)
     \<and> selectedTemplate (fst (disconnectWallet (current y))) = selectedTemplate (current y)"
proof (cases "nearConnection (current y)")
  case None
  with reachable_provider_invariant [OF assms]
  have "wallet (current y) = signed_out" "deployResult (current y) = None"
    by (simp_all add: provider_invariant_def)
  with None show ?thesis by (simp add: disconnectWallet_def)
next
  case (Some c)
  then show ?thesis by (simp add: disconnectWallet_def)
qed

theorem disconnect_clears_deploy_result_only_witness:
  "isSignedIn (wallet deployed_session) \<and> deployResult deployed_session \<noteq> None
   \<and> fst (disconnectWallet deployed_session) =
       deployed_session\<lparr>wallet := signed_out, deployResult := None\<rparr>
   \<and> compileResult (fst (disconnectWallet deployed_session)) = Some example_response"
  using disconnect_clears_deploy_result_only [OF reachable_deployed]
  by (simp add: idle_def deployed_session_def compiled_session_def)

subsection \<open>Loading a template\<close>

lemma underscore_not_whitespace: "\<not> is_whitespace 0x005F"
  by (simp add: is_whitespace_def)

lemma replace_keeps_prefix:
  "replace_whitespace_runs cs =
     takeWhile (\<lambda>d. \<not> is_whitespace d) cs @
     replace_whitespace_runs (dropWhile (\<lambda>d. \<not> is_whitespace d) cs)"
  by (induction cs) auto

lemma underscore_for_whitespace_eq:
  "underscore_for_whitespace n = replace_whitespace_runs n"
proof (induction n rule: maximal_runs.induct)
  case 1
  then show ?case by (simp add: underscore_for_whitespace_def)
next
  case (2 c cs)
  show ?case
  proof (cases "is_whitespace c")
    case True
    then have "list_all is_whitespace (c # takeWhile (\<lambda>d. is_whitespace d = is_whitespace c) cs)"
      by (auto simp: list_all_iff dest: set_takeWhileD)
    with True 2 show ?thesis
      by (simp add: underscore_for_whitespace_def ustr_def)
  next
    case False
    with 2 show ?thesis
      using replace_keeps_prefix [of cs]
      by (simp add: underscore_for_whitespace_def)
  qed
qed

lemma replace_no_whitespace: "c \<in> set (replace_whitespace_runs n) \<Longrightarrow> \<not> is_whitespace c"
  by (induction n rule: replace_whitespace_runs.induct)
     (auto simp: underscore_not_whitespace split: if_splits)

lemma find_distinct_name:
  "t \<in> set ts \<Longrightarrow> distinct (map tpl_name ts) \<Longrightarrow>
     find (\<lambda>t'. tpl_name t' = tpl_name t) ts = Some t"
  by (induction ts) (auto simp: image_iff)

text \<open>
  C8. For a template of the catalogue (whose names are unique), loading it by its name
  sets the source text to the template's source, sets the contract name to the
  lowercased name with one underscore for each maximal run of whitespace, so that no
  whitespace is left in it, clears the compile result and the deploy result, and marks
  the template as selected.
\<close>

theorem load_template_sets_source_and_name:
  assumes "t \<in> set (templates s)" "distinct (map tpl_name (templates s))"
  shows "loadTemplate lc (tpl_name t) s =
           s\<lparr>code := tpl_code t,
             contractName := underscore_for_whitespace (lc (tpl_name t)),
             compileResult := None, deployResult := None,
             selectedTemplate := tpl_name t\<rparr>
     \<and> list_all (\<lambda>c. \<not> is_whitespace c) (contractName (loadTemplate lc (tpl_name t) s))"
proof -
  have "loadTemplate lc (tpl_name t) s =
           s\<lparr>code := tpl_code t,
             contractName := underscore_for_whitespace (lc (tpl_name t)),
             compileResult := None, deployResult := None,
             selectedTemplate := tpl_name t\<rparr>"
    using find_distinct_name [OF assms]
    by (simp add: loadTemplate_def underscore_for_whitespace_eq)
  then show ?thesis
    using replace_no_whitespace by (auto simp: underscore_for_whitespace_eq list_all_iff)
qed

theorem load_template_sets_source_and_name_witness:
  "loadTemplate ascii_toLowerCase (ustr ''Fungible  Token'') deployed_session =
     deployed_session
       \<lparr>code := ustr ''pub struct Token {}'', contractName := ustr ''fungible_token'',
        compileResult := None, deployResult := None,
        selectedTemplate := ustr ''Fungible  Token''\<rparr>"
proof -
  have m: "example_template \<in> set (templates deployed_session)"
    "distinct (map tpl_name (templates deployed_session))"
    by (simp_all add: deployed_session_def compiled_session_def)
  have n: "tpl_name example_template = ustr ''Fungible  Token''"
    "tpl_code example_template = ustr ''pub struct Token {}''"
    by (simp_all add: example_template_def)
  have u: "underscore_for_whitespace (ascii_toLowerCase (ustr ''Fungible  Token'')) =
      ustr ''fungible_token''"
    by (simp add: underscore_for_whitespace_def ascii_toLowerCase_def ustr_def
        is_whitespace_def)
  from load_template_sets_source_and_name [OF m, of ascii_toLowerCase]
  show ?thesis by (simp only: n u)
qed

text \<open>
  C10. Loading a name that no template of the catalogue has, the empty selection
  included, changes nothing but the selected-template marker: the source text, the
  contract name, the compile result and the deploy result are as before.
\<close>

theorem load_unknown_template_only_marks_selection:
  assumes "\<forall>t \<in> set (templates s). tpl_name t \<noteq> n"
  shows "loadTemplate lc n s = s\<lparr>selectedTemplate := n\<rparr>"
proof -
  from assms have "find (\<lambda>t. tpl_name t = n) (templates s) = None"
    by (simp add: find_None_iff)
  then show ?thesis by (simp add: loadTemplate_def)
qed

theorem load_unknown_template_only_marks_selection_witness:
  "loadTemplate ascii_toLowerCase [] deployed_session = deployed_session\<lparr>selectedTemplate := []\<rparr>
   \<and> deployResult (loadTemplate ascii_toLowerCase [] deployed_session) \<noteq> None"
proof -
  have "\<forall>t \<in> set (templates deployed_session). tpl_name t \<noteq> []"
    by (simp add: deployed_session_def compiled_session_def example_template_def ustr_def)
  from load_unknown_template_only_marks_selection [OF this, of ascii_toLowerCase]
  show ?thesis by (simp add: deployed_session_def compiled_session_def)
qed

end
